theory Spec2Isabelle
  imports Main
begin

section \<open>The header \<open>src/libuwp.h\<close> as text\<close>

text \<open>
  The repository's only source file is a C header. It is embedded verbatim, as the
  sequence of its characters: eight lines separated by seven line feeds, the last line
  not being terminated by one.
\<close>

definition newline :: char where
  "newline = CHR 0x0A"

definition libuwp_h :: string where
  "libuwp_h =
     ''#include <stdlib.h>'' @ [newline] @
     ''__declspec(dllimport) void uwp_GetBundlePath(char* buffer);'' @ [newline] @
     ''__declspec(dllimport) void uwp_GetBundleFilePath(char* buffer, const char *filename);'' @ [newline] @
     ''__declspec(dllimport) void uwp_GetScreenSize(int* x, int* y);'' @ [newline] @
     ''__declspec(dllimport) void uwp_GetTarget(char* buffer);'' @ [newline] @
     ''__declspec(dllimport) void uwp_LogMessage(char* buffer);'' @ [newline] @
     ''__declspec(dllimport) void uwp_PatchFolder(char* folder);'' @ [newline] @
     ''__declspec(dllimport) void uwp_PickAFolder(char* buffer);''"

section \<open>Abstract syntax of what a header line can hold\<close>

datatype base_type = TVoid | TChar | TInt | TNamed string

datatype ctype = Base base_type | Const ctype | Ptr ctype

record param =
  ptype :: ctype
  pname :: string

record fdecl =
  declspec :: "string option"
  ret :: ctype
  fname :: string
  params :: "param list"
  body :: "string list option"

datatype item = Include string | Function fdecl | Object ctype string

section \<open>Reading the text\<close>

subsection \<open>Lines and tokens\<close>

fun split_on :: "'a \<Rightarrow> 'a list \<Rightarrow> 'a list list" where
  "split_on s [] = [[]]"
| "split_on s (x # xs) =
     (if x = s then [] # split_on s xs
      else (case split_on s xs of
              [] \<Rightarrow> [[x]]
            | l # ls \<Rightarrow> (x # l) # ls))"

text \<open>A line feed ends a line; a last line without one still counts.\<close>

definition lines_of :: "string \<Rightarrow> string list" where
  "lines_of s = (let ls = split_on newline s in if last ls = [] then butlast ls else ls)"

definition is_space :: "char \<Rightarrow> bool" where
  "is_space c = (c = CHR '' '' \<or> c = CHR 0x09 \<or> c = CHR 0x0D)"

definition is_punct :: "char \<Rightarrow> bool" where
  "is_punct c = (c \<in> set ''(),;*{}'')"

definition flush :: "string \<Rightarrow> string list" where
  "flush acc = (if acc = [] then [] else [acc])"

fun tokenize_aux :: "string \<Rightarrow> string \<Rightarrow> string list" where
  "tokenize_aux acc [] = flush acc"
| "tokenize_aux acc (c # cs) =
     (if is_space c then flush acc @ tokenize_aux [] cs
      else if is_punct c then flush acc @ [c] # tokenize_aux [] cs
      else tokenize_aux (acc @ [c]) cs)"

definition tokenize :: "string \<Rightarrow> string list" where
  "tokenize s = tokenize_aux [] s"

subsection \<open>Identifiers and types\<close>

definition is_ident_start :: "char \<Rightarrow> bool" where
  "is_ident_start c =
     (c \<in> set ''abcdefghijklmnopqrstuvwxyzABCDEFGHIJKLMNOPQRSTUVWXYZ_'')"

definition is_ident_char :: "char \<Rightarrow> bool" where
  "is_ident_char c = (is_ident_start c \<or> c \<in> set ''0123456789'')"

definition c_keywords :: "string list" where
  "c_keywords = [''void'', ''char'', ''int'', ''const'']"

definition is_ident :: "string \<Rightarrow> bool" where
  "is_ident s = (case s of [] \<Rightarrow> False | c # cs \<Rightarrow> is_ident_start c \<and> list_all is_ident_char cs)"

definition is_name :: "string \<Rightarrow> bool" where
  "is_name s = (is_ident s \<and> \<not> List.member c_keywords s)"

definition base_of :: "string \<Rightarrow> base_type" where
  "base_of s =
     (if s = ''void'' then TVoid
      else if s = ''char'' then TChar
      else if s = ''int'' then TInt
      else TNamed s)"

fun parse_stars :: "ctype \<Rightarrow> string list \<Rightarrow> ctype \<times> string list" where
  "parse_stars t [] = (t, [])"
| "parse_stars t (tok # ts) = (if tok = ''*'' then parse_stars (Ptr t) ts else (t, tok # ts))"

definition parse_type :: "string list \<Rightarrow> (ctype \<times> string list) option" where
  "parse_type ts =
     (case ts of
        [] \<Rightarrow> None
      | t # rest \<Rightarrow>
          if t = ''const'' then
            (case rest of
               [] \<Rightarrow> None
             | b # rest' \<Rightarrow>
                 if is_ident b \<and> b \<noteq> ''const''
                 then Some (parse_stars (Const (Base (base_of b))) rest')
                 else None)
          else if is_ident t then Some (parse_stars (Base (base_of t)) rest)
          else None)"

subsection \<open>Parameters and declarations\<close>

definition parse_param :: "string list \<Rightarrow> param option" where
  "parse_param ts =
     (case parse_type ts of
        None \<Rightarrow> None
      | Some (t, rest) \<Rightarrow>
          (case rest of
             [n] \<Rightarrow> if is_name n then Some \<lparr>ptype = t, pname = n\<rparr> else None
           | _ \<Rightarrow> None))"

definition parse_param_list :: "string list \<Rightarrow> param list option" where
  "parse_param_list ts =
     (if ts = [] then Some [] else those (map parse_param (split_on '','' ts)))"

definition parse_declspec :: "string list \<Rightarrow> string option \<times> string list" where
  "parse_declspec ts =
     (case ts of
        k # l # a # r # rest \<Rightarrow>
          if k = ''__declspec'' \<and> l = ''('' \<and> r = '')'' then (Some a, rest) else (None, ts)
      | _ \<Rightarrow> (None, ts))"

definition parse_function ::
  "string option \<Rightarrow> ctype \<Rightarrow> string \<Rightarrow> string list \<Rightarrow> item option" where
  "parse_function ds t n ts =
     (let ptoks = takeWhile (\<lambda>x. x \<noteq> '')'') ts;
          after = dropWhile (\<lambda>x. x \<noteq> '')'') ts
      in case after of
           [] \<Rightarrow> None
         | rp # tail \<Rightarrow>
             (case parse_param_list ptoks of
                None \<Rightarrow> None
              | Some ps \<Rightarrow>
                  if tail = ['';''] then
                    Some (Function \<lparr>declspec = ds, ret = t, fname = n, params = ps, body = None\<rparr>)
                  else if 2 \<le> length tail \<and> hd tail = ''{'' \<and> last tail = ''}'' then
                    Some (Function \<lparr>declspec = ds, ret = t, fname = n, params = ps,
                                    body = Some (butlast (tl tail))\<rparr>)
                  else None))"

definition parse_decl :: "string list \<Rightarrow> item option" where
  "parse_decl ts =
     (case parse_declspec ts of
        (ds, ts1) \<Rightarrow>
          (case parse_type ts1 of
             None \<Rightarrow> None
           | Some (t, ts2) \<Rightarrow>
               (case ts2 of
                  [] \<Rightarrow> None
                | n # rest \<Rightarrow>
                    if \<not> is_name n then None
                    else if rest = ['';''] then Some (Object t n)
                    else (case rest of
                            [] \<Rightarrow> None
                          | lp # rest2 \<Rightarrow>
                              if lp = ''('' then parse_function ds t n rest2 else None))))"

definition parse_include :: "string \<Rightarrow> item option" where
  "parse_include l =
     (case tokenize l of
        [d, f] \<Rightarrow>
          if d = ''#include'' \<and> 2 \<le> length f \<and> hd f = CHR ''<'' \<and> last f = CHR ''>''
          then Some (Include (butlast (tl f)))
          else None
      | _ \<Rightarrow> None)"

definition parse_line :: "string \<Rightarrow> item option" where
  "parse_line l = (if take 1 l = ''#'' then parse_include l else parse_decl (tokenize l))"

definition parse_header :: "string \<Rightarrow> item list option" where
  "parse_header s = those (map parse_line (lines_of s))"

section \<open>The parsed header\<close>

definition header_items :: "item list" where
  "header_items = (case parse_header libuwp_h of None \<Rightarrow> [] | Some its \<Rightarrow> its)"

fun functions_of :: "item list \<Rightarrow> fdecl list" where
  "functions_of [] = []"
| "functions_of (Function f # its) = f # functions_of its"
| "functions_of (_ # its) = functions_of its"

fun objects_of :: "item list \<Rightarrow> (ctype \<times> string) list" where
  "objects_of [] = []"
| "objects_of (Object t n # its) = (t, n) # objects_of its"
| "objects_of (_ # its) = objects_of its"

fun includes_of :: "item list \<Rightarrow> string list" where
  "includes_of [] = []"
| "includes_of (Include f # its) = f # includes_of its"
| "includes_of (_ # its) = includes_of its"

definition declarations :: "fdecl list" where
  "declarations = functions_of header_items"

text \<open>Every symbol a header declares: its functions and its objects, in order.\<close>

fun declared_symbols :: "item list \<Rightarrow> string list" where
  "declared_symbols [] = []"
| "declared_symbols (Function f # its) = fname f # declared_symbols its"
| "declared_symbols (Object t n # its) = n # declared_symbols its"
| "declared_symbols (Include f # its) = declared_symbols its"

text \<open>The seven prototypes, written out as syntax trees.\<close>

definition import_void :: "string \<Rightarrow> param list \<Rightarrow> fdecl" where
  "import_void n ps =
     \<lparr>declspec = Some ''dllimport'', ret = Base TVoid, fname = n, params = ps, body = None\<rparr>"

definition uwp_GetBundlePath :: fdecl where
  "uwp_GetBundlePath =
     import_void ''uwp_GetBundlePath'' [\<lparr>ptype = Ptr (Base TChar), pname = ''buffer''\<rparr>]"

definition uwp_GetBundleFilePath :: fdecl where
  "uwp_GetBundleFilePath =
     import_void ''uwp_GetBundleFilePath''
       [\<lparr>ptype = Ptr (Base TChar), pname = ''buffer''\<rparr>,
        \<lparr>ptype = Ptr (Const (Base TChar)), pname = ''filename''\<rparr>]"

definition uwp_GetScreenSize :: fdecl where
  "uwp_GetScreenSize =
     import_void ''uwp_GetScreenSize''
       [\<lparr>ptype = Ptr (Base TInt), pname = ''x''\<rparr>,
        \<lparr>ptype = Ptr (Base TInt), pname = ''y''\<rparr>]"

definition uwp_GetTarget :: fdecl where
  "uwp_GetTarget =
     import_void ''uwp_GetTarget'' [\<lparr>ptype = Ptr (Base TChar), pname = ''buffer''\<rparr>]"

definition uwp_LogMessage :: fdecl where
  "uwp_LogMessage =
     import_void ''uwp_LogMessage'' [\<lparr>ptype = Ptr (Base TChar), pname = ''buffer''\<rparr>]"

definition uwp_PatchFolder :: fdecl where
  "uwp_PatchFolder =
     import_void ''uwp_PatchFolder'' [\<lparr>ptype = Ptr (Base TChar), pname = ''folder''\<rparr>]"

definition uwp_PickAFolder :: fdecl where
  "uwp_PickAFolder =
     import_void ''uwp_PickAFolder'' [\<lparr>ptype = Ptr (Base TChar), pname = ''buffer''\<rparr>]"

section \<open>Notions the properties are stated with\<close>

text \<open>The parameters of an interface, each with the function that declares it.\<close>

definition all_params :: "fdecl list \<Rightarrow> (string \<times> param) list" where
  "all_params ds = concat (map (\<lambda>d. map (Pair (fname d)) (params d)) ds)"

definition lookup_decl :: "string \<Rightarrow> fdecl list \<Rightarrow> fdecl option" where
  "lookup_decl n ds = find (\<lambda>d. fname d = n) ds"

text \<open>The seven symbols, as the header spells them.\<close>

definition entry_points :: "string list" where
  "entry_points =
     [''uwp_GetBundlePath'', ''uwp_GetBundleFilePath'', ''uwp_GetScreenSize'',
      ''uwp_GetTarget'', ''uwp_LogMessage'', ''uwp_PatchFolder'', ''uwp_PickAFolder'']"

text \<open>
  The Symbol column of the table in section 2 of the specification, row by row. This
  list follows the specification's words, not the header.
\<close>

definition spec_symbols :: "string list" where
  "spec_symbols =
     [''GetBundlePath'', ''GetBundleFilePath'', ''GetScreenSize'', ''GetTarget'',
      ''LogMessage'', ''PatchFolder'', ''PickAFolder'']"

subsection \<open>Channels for reporting an error\<close>

text \<open>
  The data each operation exchanges with its caller, read off the Responsibility column
  of the table in section 2 of the specification: a path written to a buffer, a path and
  the name of the file it belongs to, a width and a height, a target string, a message,
  a folder, a chosen path. This list follows the specification's words, not the header.
\<close>

definition spec_data_items :: "(string \<times> string list) list" where
  "spec_data_items =
     [(''GetBundlePath'', [''bundle root path'']),
      (''GetBundleFilePath'', [''path of the file'', ''name of the file'']),
      (''GetScreenSize'', [''display width'', ''display height'']),
      (''GetTarget'', [''target string'']),
      (''LogMessage'', [''message'']),
      (''PatchFolder'', [''folder'']),
      (''PickAFolder'', [''chosen path''])]"

text \<open>
  What a C prototype can offer for reporting success or failure: a return value, when the
  return type is not \<open>void\<close>, and every parameter it has beyond the \<open>n\<close> that carry
  the operation's data. (A status object would be a declaration of its own, found by
  \<open>objects_of\<close>.)
\<close>

definition error_channels :: "nat \<Rightarrow> fdecl \<Rightarrow> string list" where
  "error_channels n d =
     (if ret d = Base TVoid then [] else [''return value''])
     @ map pname (drop n (params d))"

definition signature_of :: "fdecl \<Rightarrow> ctype \<times> string \<times> (ctype \<times> string) list" where
  "signature_of d = (ret d, fname d, map (\<lambda>p. (ptype p, pname p)) (params d))"

subsection \<open>Shapes of types\<close>

fun is_pointer :: "ctype \<Rightarrow> bool" where
  "is_pointer (Ptr t) = True"
| "is_pointer (Const t) = is_pointer t"
| "is_pointer (Base b) = False"

fun has_const :: "ctype \<Rightarrow> bool" where
  "has_const (Const t) = True"
| "has_const (Ptr t) = has_const t"
| "has_const (Base b) = False"

fun base_type_of :: "ctype \<Rightarrow> base_type" where
  "base_type_of (Base b) = b"
| "base_type_of (Const t) = base_type_of t"
| "base_type_of (Ptr t) = base_type_of t"

definition char_buffer :: "ctype \<Rightarrow> bool" where
  "char_buffer t = (t = Ptr (Base TChar) \<or> t = Ptr (Const (Base TChar)))"

definition int_reference :: "ctype \<Rightarrow> bool" where
  "int_reference t = (t = Ptr (Base TInt))"

text \<open>
  The direction a C parameter type can express: through a pointer to a \<open>const\<close> object
  the callee can only read, so the argument is an input; through a pointer to a
  non-\<open>const\<close> object it can write a result back; anything passed by value is an input.
\<close>

datatype direction = Dir_In | Dir_Out

fun direction_of :: "ctype \<Rightarrow> direction" where
  "direction_of (Ptr (Const t)) = Dir_In"
| "direction_of (Ptr t) = Dir_Out"
| "direction_of t = Dir_In"

definition directions :: "(ctype \<Rightarrow> direction) \<Rightarrow> fdecl \<Rightarrow> direction list" where
  "directions dir d = map (\<lambda>p. dir (ptype p)) (params d)"

definition mixed_directions :: "(ctype \<Rightarrow> direction) \<Rightarrow> fdecl \<Rightarrow> bool" where
  "mixed_directions dir d =
     (Dir_In \<in> set (directions dir d) \<and> Dir_Out \<in> set (directions dir d))"

subsection \<open>Names a declaration relies on\<close>

text \<open>Type names that are not built into the language, in a type and in a prototype.\<close>

fun typedef_names_of :: "base_type \<Rightarrow> string list" where
  "typedef_names_of (TNamed n) = [n]"
| "typedef_names_of b = []"

definition typedef_names :: "fdecl \<Rightarrow> string list" where
  "typedef_names d =
     concat (map (\<lambda>t. typedef_names_of (base_type_of t)) (ret d # map ptype (params d)))"

text \<open>The names an item brings into scope itself.\<close>

fun introduced_names :: "item \<Rightarrow> string list" where
  "introduced_names (Function f) = fname f # map pname (params f)"
| "introduced_names (Object t n) = [n]"
| "introduced_names (Include f) = []"

text \<open>
  The identifiers on a line that are neither keywords of the language nor names the
  line introduces: what the line needs from elsewhere.
\<close>

definition free_identifiers :: "string \<Rightarrow> string list" where
  "free_identifiers l =
     (let own = (case parse_line l of None \<Rightarrow> [] | Some it \<Rightarrow> introduced_names it)
      in filter (\<lambda>t. is_ident t \<and> \<not> List.member c_keywords t \<and> \<not> List.member own t)
           (tokenize l))"

text \<open>
  The header \<open>stdlib.h\<close> is a system header and not part of the repository. These are
  the types, macros and functions that ISO C (C11, section 7.22) specifies for it.
\<close>

definition iso_stdlib_h_names :: "string list" where
  "iso_stdlib_h_names =
     [''size_t'', ''wchar_t'', ''div_t'', ''ldiv_t'', ''lldiv_t'',
      ''NULL'', ''EXIT_FAILURE'', ''EXIT_SUCCESS'', ''RAND_MAX'', ''MB_CUR_MAX'',
      ''atof'', ''atoi'', ''atol'', ''atoll'',
      ''strtod'', ''strtof'', ''strtold'', ''strtol'', ''strtoll'', ''strtoul'', ''strtoull'',
      ''rand'', ''srand'',
      ''aligned_alloc'', ''calloc'', ''free'', ''malloc'', ''realloc'',
      ''abort'', ''atexit'', ''at_quick_exit'', ''exit'', ''_Exit'', ''getenv'',
      ''quick_exit'', ''system'',
      ''bsearch'', ''qsort'',
      ''abs'', ''labs'', ''llabs'', ''div'', ''ldiv'', ''lldiv'',
      ''mblen'', ''mbtowc'', ''wctomb'', ''mbstowcs'', ''wcstombs'']"

definition identifiers_of :: "string \<Rightarrow> string list" where
  "identifiers_of s = filter is_ident (concat (map tokenize (lines_of s)))"

subsection \<open>Kinds of lines\<close>

datatype line_kind =
  Include_directive | Function_prototype | Function_definition | Object_declaration
  | Unrecognised

fun kind_of :: "item option \<Rightarrow> line_kind" where
  "kind_of None = Unrecognised"
| "kind_of (Some (Include f)) = Include_directive"
| "kind_of (Some (Object t n)) = Object_declaration"
| "kind_of (Some (Function f)) =
     (case body f of None \<Rightarrow> Function_prototype | Some b \<Rightarrow> Function_definition)"

section \<open>Evaluating the parser on the header\<close>

lemmas uwp_defs =
  uwp_GetBundlePath_def uwp_GetBundleFilePath_def uwp_GetScreenSize_def uwp_GetTarget_def
  uwp_LogMessage_def uwp_PatchFolder_def uwp_PickAFolder_def import_void_def

lemma lines_of_libuwp_h:
  "lines_of libuwp_h =
     [''#include <stdlib.h>'',
      ''__declspec(dllimport) void uwp_GetBundlePath(char* buffer);'',
      ''__declspec(dllimport) void uwp_GetBundleFilePath(char* buffer, const char *filename);'',
      ''__declspec(dllimport) void uwp_GetScreenSize(int* x, int* y);'',
      ''__declspec(dllimport) void uwp_GetTarget(char* buffer);'',
      ''__declspec(dllimport) void uwp_LogMessage(char* buffer);'',
      ''__declspec(dllimport) void uwp_PatchFolder(char* folder);'',
      ''__declspec(dllimport) void uwp_PickAFolder(char* buffer);'']"
  by code_simp

lemma parse_line_1: "parse_line ''#include <stdlib.h>'' = Some (Include ''stdlib.h'')"
  by code_simp

lemma parse_line_2:
  "parse_line ''__declspec(dllimport) void uwp_GetBundlePath(char* buffer);''
     = Some (Function uwp_GetBundlePath)"
  by code_simp

lemma parse_line_3:
  "parse_line ''__declspec(dllimport) void uwp_GetBundleFilePath(char* buffer, const char *filename);''
     = Some (Function uwp_GetBundleFilePath)"
  by code_simp

lemma parse_line_4:
  "parse_line ''__declspec(dllimport) void uwp_GetScreenSize(int* x, int* y);''
     = Some (Function uwp_GetScreenSize)"
  by code_simp

lemma parse_line_5:
  "parse_line ''__declspec(dllimport) void uwp_GetTarget(char* buffer);''
     = Some (Function uwp_GetTarget)"
  by code_simp

lemma parse_line_6:
  "parse_line ''__declspec(dllimport) void uwp_LogMessage(char* buffer);''
     = Some (Function uwp_LogMessage)"
  by code_simp

lemma parse_line_7:
  "parse_line ''__declspec(dllimport) void uwp_PatchFolder(char* folder);''
     = Some (Function uwp_PatchFolder)"
  by code_simp

lemma parse_line_8:
  "parse_line ''__declspec(dllimport) void uwp_PickAFolder(char* buffer);''
     = Some (Function uwp_PickAFolder)"
  by code_simp

lemmas parse_lines =
  parse_line_1 parse_line_2 parse_line_3 parse_line_4
  parse_line_5 parse_line_6 parse_line_7 parse_line_8

lemma parse_header_libuwp_h:
  "parse_header libuwp_h =
     Some [Include ''stdlib.h'', Function uwp_GetBundlePath, Function uwp_GetBundleFilePath,
           Function uwp_GetScreenSize, Function uwp_GetTarget, Function uwp_LogMessage,
           Function uwp_PatchFolder, Function uwp_PickAFolder]"
  unfolding parse_header_def lines_of_libuwp_h by (simp add: parse_lines)

lemma header_items_eq:
  "header_items =
     [Include ''stdlib.h'', Function uwp_GetBundlePath, Function uwp_GetBundleFilePath,
      Function uwp_GetScreenSize, Function uwp_GetTarget, Function uwp_LogMessage,
      Function uwp_PatchFolder, Function uwp_PickAFolder]"
  unfolding header_items_def parse_header_libuwp_h by simp

lemma declarations_eq:
  "declarations =
     [uwp_GetBundlePath, uwp_GetBundleFilePath, uwp_GetScreenSize, uwp_GetTarget,
      uwp_LogMessage, uwp_PatchFolder, uwp_PickAFolder]"
  unfolding declarations_def header_items_eq by simp

lemma all_params_eq:
  "all_params declarations =
     [(''uwp_GetBundlePath'', \<lparr>ptype = Ptr (Base TChar), pname = ''buffer''\<rparr>),
      (''uwp_GetBundleFilePath'', \<lparr>ptype = Ptr (Base TChar), pname = ''buffer''\<rparr>),
      (''uwp_GetBundleFilePath'', \<lparr>ptype = Ptr (Const (Base TChar)), pname = ''filename''\<rparr>),
      (''uwp_GetScreenSize'', \<lparr>ptype = Ptr (Base TInt), pname = ''x''\<rparr>),
      (''uwp_GetScreenSize'', \<lparr>ptype = Ptr (Base TInt), pname = ''y''\<rparr>),
      (''uwp_GetTarget'', \<lparr>ptype = Ptr (Base TChar), pname = ''buffer''\<rparr>),
      (''uwp_LogMessage'', \<lparr>ptype = Ptr (Base TChar), pname = ''buffer''\<rparr>),
      (''uwp_PatchFolder'', \<lparr>ptype = Ptr (Base TChar), pname = ''folder''\<rparr>),
      (''uwp_PickAFolder'', \<lparr>ptype = Ptr (Base TChar), pname = ''buffer''\<rparr>)]"
  by (simp add: all_params_def declarations_eq uwp_defs)

lemma kinds_of_lines:
  "map (\<lambda>l. kind_of (parse_line l)) (lines_of libuwp_h)
     = Include_directive # replicate 7 Function_prototype"
  unfolding lines_of_libuwp_h
  by (simp add: parse_lines uwp_defs numeral_eq_Suc)

text \<open>
  Whatever direction is read off a parameter's type, a prototype can mix directions only
  if two of its parameters differ in type; the bundle file lookup is the only such one.
\<close>

lemma mixed_directions_any:
  "filter (mixed_directions dir) declarations =
     (if dir (Ptr (Base TChar)) \<noteq> dir (Ptr (Const (Base TChar)))
      then [uwp_GetBundleFilePath] else [])"
proof -
  have "mixed_directions dir uwp_GetBundleFilePath
          = (dir (Ptr (Base TChar)) \<noteq> dir (Ptr (Const (Base TChar))))"
    by (cases "dir (Ptr (Base TChar))"; cases "dir (Ptr (Const (Base TChar)))")
       (simp_all add: mixed_directions_def directions_def uwp_defs)
  moreover have "\<not> mixed_directions dir uwp_GetScreenSize"
    by (cases "dir (Ptr (Base TInt))")
       (simp_all add: mixed_directions_def directions_def uwp_defs)
  moreover have "\<not> mixed_directions dir uwp_GetBundlePath"
    "\<not> mixed_directions dir uwp_GetTarget" "\<not> mixed_directions dir uwp_LogMessage"
    "\<not> mixed_directions dir uwp_PatchFolder" "\<not> mixed_directions dir uwp_PickAFolder"
    by (cases "dir (Ptr (Base TChar))";
        simp add: mixed_directions_def directions_def uwp_defs)+
  ultimately show ?thesis
    by (simp add: declarations_eq)
qed

section \<open>The properties of the interface\<close>

text \<open>
  C1. The header declares exactly seven symbols, all of them functions: the bundle path
  lookup, the bundle file path lookup, the screen size query, the target identification,
  the logging call, the folder patch and the folder picker. Every declared symbol is one
  of these seven and each of the seven is declared exactly once.
\<close>

theorem C1_exactly_seven_entry_points:
  "declared_symbols header_items = entry_points
   \<and> map fname declarations = declared_symbols header_items
   \<and> length (declared_symbols header_items) = 7
   \<and> distinct (declared_symbols header_items)
   \<and> (\<forall>s. count_list (declared_symbols header_items) s
             = (if s \<in> set entry_points then 1 else 0))"
  by (simp add: header_items_eq declarations_eq uwp_defs entry_points_def)

text \<open>
  C2, as stated: for every row of the specification's symbol table there is a declaration
  whose symbol name equals the row's Symbol column. This fails at the first row already:
  the table lists \<open>GetBundlePath\<close>, and no declaration of the header has that name.
\<close>

theorem C2_bare_symbol_not_declared:
  "''GetBundlePath'' \<in> set spec_symbols
   \<and> ''GetBundlePath'' \<notin> set (map fname declarations)"
  by (simp add: spec_symbols_def declarations_eq uwp_defs)

text \<open>
  C2, amended: the seven declared symbols are, in the order of the table, the Symbol
  column of each row with the prefix \<open>uwp_\<close> in front.
\<close>

theorem C2_symbols_carry_uwp_prefix:
  "map fname declarations = map (\<lambda>s. ''uwp_'' @ s) spec_symbols"
  by (simp add: spec_symbols_def declarations_eq uwp_defs)

text \<open>
  C3. None of the seven declarations can report an error through its signature. Each
  returns \<open>void\<close>, so there is no return code. The signatures are exactly the seven
  below: each has as many parameters as the operation has data to exchange (the buffers,
  the file name, the two screen dimensions, the folder) and none beyond them, so no
  parameter is left to carry a status. A C prototype has no exception clause (the
  grammar read here has nothing between the parameter list and the semicolon), and the
  header declares no object that could serve as a status variable.
\<close>

theorem C3_no_error_channel_in_any_signature:
  "list_all (\<lambda>d. ret d = Base TVoid) declarations
   \<and> length declarations = 7
   \<and> objects_of header_items = []
   \<and> map signature_of declarations
       = [(Base TVoid, ''uwp_GetBundlePath'', [(Ptr (Base TChar), ''buffer'')]),
          (Base TVoid, ''uwp_GetBundleFilePath'',
             [(Ptr (Base TChar), ''buffer''), (Ptr (Const (Base TChar)), ''filename'')]),
          (Base TVoid, ''uwp_GetScreenSize'',
             [(Ptr (Base TInt), ''x''), (Ptr (Base TInt), ''y'')]),
          (Base TVoid, ''uwp_GetTarget'', [(Ptr (Base TChar), ''buffer'')]),
          (Base TVoid, ''uwp_LogMessage'', [(Ptr (Base TChar), ''buffer'')]),
          (Base TVoid, ''uwp_PatchFolder'', [(Ptr (Base TChar), ''folder'')]),
          (Base TVoid, ''uwp_PickAFolder'', [(Ptr (Base TChar), ''buffer'')])]
   \<and> map fname declarations = map (\<lambda>(s, items). ''uwp_'' @ s) spec_data_items
   \<and> map (\<lambda>d. length (params d)) declarations
       = map (\<lambda>(s, items). length items) spec_data_items
   \<and> map (\<lambda>(d, s, items). error_channels (length items) d)
         (zip declarations spec_data_items)
       = replicate 7 []"
  by (simp add: header_items_eq declarations_eq uwp_defs spec_data_items_def
        signature_of_def error_channels_def numeral_eq_Suc)

text \<open>
  C4. The screen size query takes exactly two parameters, both of type pointer to
  \<open>int\<close>, and they are the only parameters of the interface whose type is a pointer to
  an integer.
\<close>

theorem C4_screen_size_has_the_only_int_pointers:
  "map_option params (lookup_decl ''uwp_GetScreenSize'' declarations)
     = Some [\<lparr>ptype = Ptr (Base TInt), pname = ''x''\<rparr>,
             \<lparr>ptype = Ptr (Base TInt), pname = ''y''\<rparr>]
   \<and> filter (\<lambda>(f, p). is_pointer (ptype p) \<and> base_type_of (ptype p) = TInt)
        (all_params declarations)
     = [(''uwp_GetScreenSize'', \<lparr>ptype = Ptr (Base TInt), pname = ''x''\<rparr>),
        (''uwp_GetScreenSize'', \<lparr>ptype = Ptr (Base TInt), pname = ''y''\<rparr>)]"
  unfolding all_params_eq
  by (simp add: lookup_decl_def declarations_eq uwp_defs)

text \<open>
  C5. Every parameter of every declaration is a character buffer (\<open>char*\<close> or
  \<open>const char*\<close>) or a reference to an integer (\<open>int*\<close>). So every parameter is a
  pointer, none is passed by value, and the header declares no data object.
\<close>

theorem C5_parameters_are_buffers_or_int_references:
  "list_all (\<lambda>(f, p). char_buffer (ptype p) \<or> int_reference (ptype p))
     (all_params declarations)
   \<and> list_all (\<lambda>(f, p). is_pointer (ptype p)) (all_params declarations)
   \<and> length (all_params declarations) = 9
   \<and> objects_of header_items = []"
  unfolding all_params_eq
  by (simp add: char_buffer_def int_reference_def header_items_eq)

text \<open>
  C6. Each of the seven declarations carries the \<open>dllimport\<close> marker and none has a
  body; the header holds nothing but the include line and these prototypes, so it has
  no statements and no data definitions.
\<close>

theorem C6_imported_prototypes_without_bodies:
  "list_all (\<lambda>d. declspec d = Some ''dllimport'' \<and> body d = None) declarations
   \<and> length declarations = 7
   \<and> length header_items = 8
   \<and> objects_of header_items = []
   \<and> map (\<lambda>l. kind_of (parse_line l)) (lines_of libuwp_h)
       = Include_directive # replicate 7 Function_prototype"
  unfolding kinds_of_lines
  by (simp add: header_items_eq declarations_eq uwp_defs)

text \<open>
  C7. The bundle file path lookup is the only declaration whose parameters differ in
  direction. It has two: a character buffer the callee can write to, and the file name,
  which the caller passes in as a read-only string.
\<close>

theorem C7_only_bundle_file_path_mixes_directions:
  "map fname (filter (mixed_directions direction_of) declarations)
     = [''uwp_GetBundleFilePath'']
   \<and> map_option (map (\<lambda>p. (pname p, ptype p, direction_of (ptype p))) \<circ> params)
        (lookup_decl ''uwp_GetBundleFilePath'' declarations)
     = Some [(''buffer'', Ptr (Base TChar), Dir_Out),
             (''filename'', Ptr (Const (Base TChar)), Dir_In)]"
  by (simp add: lookup_decl_def declarations_eq uwp_defs mixed_directions_def
        directions_def)

text \<open>
  C8. The file has exactly eight lines: an include directive, then seven lines holding
  one function prototype each. Every line is read completely as one of these, so the
  file has no other content.
\<close>

theorem C8_eight_lines:
  "length (lines_of libuwp_h) = 8
   \<and> count_list libuwp_h newline = 7
   \<and> map parse_line (lines_of libuwp_h)
       = [Some (Include ''stdlib.h''), Some (Function uwp_GetBundlePath),
          Some (Function uwp_GetBundleFilePath), Some (Function uwp_GetScreenSize),
          Some (Function uwp_GetTarget), Some (Function uwp_LogMessage),
          Some (Function uwp_PatchFolder), Some (Function uwp_PickAFolder)]
   \<and> map (\<lambda>l. kind_of (parse_line l)) (lines_of libuwp_h)
       = Include_directive # replicate 7 Function_prototype"
proof -
  have "count_list libuwp_h newline = 7"
    by code_simp
  moreover have "length (lines_of libuwp_h) = 8"
    unfolding lines_of_libuwp_h by simp
  moreover have "map parse_line (lines_of libuwp_h)
       = [Some (Include ''stdlib.h''), Some (Function uwp_GetBundlePath),
          Some (Function uwp_GetBundleFilePath), Some (Function uwp_GetScreenSize),
          Some (Function uwp_GetTarget), Some (Function uwp_LogMessage),
          Some (Function uwp_PatchFolder), Some (Function uwp_PickAFolder)]"
    unfolding lines_of_libuwp_h by (simp add: parse_lines)
  ultimately show ?thesis
    using kinds_of_lines by simp
qed

text \<open>
  C9. The file name of the bundle file path lookup is the only parameter of the header
  with a \<open>const\<close> qualifier. All eight others are pointers to non-\<open>const\<close> objects;
  in particular the message of the logging call and the folder of the folder patch have
  the very type \<open>char*\<close> of the result buffers, so for character buffers the type does
  not tell an input from an output.
\<close>

theorem C9_filename_is_the_only_const_parameter:
  "map (\<lambda>(f, p). (f, pname p, has_const (ptype p))) (all_params declarations)
     = [(''uwp_GetBundlePath'', ''buffer'', False),
        (''uwp_GetBundleFilePath'', ''buffer'', False),
        (''uwp_GetBundleFilePath'', ''filename'', True),
        (''uwp_GetScreenSize'', ''x'', False),
        (''uwp_GetScreenSize'', ''y'', False),
        (''uwp_GetTarget'', ''buffer'', False),
        (''uwp_LogMessage'', ''buffer'', False),
        (''uwp_PatchFolder'', ''folder'', False),
        (''uwp_PickAFolder'', ''buffer'', False)]
   \<and> list_all (\<lambda>(f, p). is_pointer (ptype p)) (all_params declarations)
   \<and> map (map ptype \<circ> params) [uwp_LogMessage, uwp_PatchFolder, uwp_GetBundlePath]
       = [[Ptr (Base TChar)], [Ptr (Base TChar)], [Ptr (Base TChar)]]
   \<and> map_option (map ptype \<circ> params) (lookup_decl ''uwp_LogMessage'' declarations)
       = map_option (map ptype \<circ> params) (lookup_decl ''uwp_GetBundlePath'' declarations)
   \<and> map_option (map ptype \<circ> params) (lookup_decl ''uwp_PatchFolder'' declarations)
       = map_option (map ptype \<circ> params) (lookup_decl ''uwp_GetBundlePath'' declarations)"
  unfolding all_params_eq
  by (simp add: lookup_decl_def declarations_eq uwp_defs)

text \<open>
  C10. Apart from its declarations the header holds only the inclusion of
  \<open>stdlib.h\<close>. No declaration needs it: every type in the seven prototypes is built
  in (\<open>void\<close>, \<open>char\<close>, \<open>int\<close>), the only identifiers on a declaration line that are
  neither keywords nor names the line introduces are those of the
  \<open>__declspec(dllimport)\<close> marker, and no identifier of the file is a name that
  \<open>stdlib.h\<close> provides.
\<close>

theorem C10_declarations_do_not_use_stdlib:
  "includes_of header_items = [''stdlib.h'']
   \<and> map (\<lambda>l. kind_of (parse_line l)) (lines_of libuwp_h)
       = Include_directive # replicate 7 Function_prototype
   \<and> map typedef_names declarations = replicate 7 []
   \<and> map (base_type_of \<circ> ret) declarations = replicate 7 TVoid
   \<and> list_all (\<lambda>(f, p). base_type_of (ptype p) = TChar \<or> base_type_of (ptype p) = TInt)
        (all_params declarations)
   \<and> map free_identifiers (tl (lines_of libuwp_h))
       = replicate 7 [''__declspec'', ''dllimport'']
   \<and> filter (\<lambda>t. t \<in> set iso_stdlib_h_names) (identifiers_of libuwp_h) = []"
proof -
  have "map free_identifiers (tl (lines_of libuwp_h))
          = replicate 7 [''__declspec'', ''dllimport'']"
    by code_simp
  moreover have "filter (\<lambda>t. t \<in> set iso_stdlib_h_names) (identifiers_of libuwp_h) = []"
    by code_simp
  moreover have "map typedef_names declarations = replicate 7 []"
    by (simp add: declarations_eq uwp_defs typedef_names_def numeral_eq_Suc)
  moreover have "map (base_type_of \<circ> ret) declarations = replicate 7 TVoid"
    by (simp add: declarations_eq uwp_defs numeral_eq_Suc)
  moreover have "list_all
      (\<lambda>(f, p). base_type_of (ptype p) = TChar \<or> base_type_of (ptype p) = TInt)
      (all_params declarations)"
    unfolding all_params_eq by simp
  moreover have "includes_of header_items = [''stdlib.h'']"
    by (simp add: header_items_eq)
  ultimately show ?thesis
    using kinds_of_lines by simp
qed

end
